theory Spec2Isabelle
  imports Main
begin

section \<open>The code-action visitor of mesonlsp\<close>

text \<open>
  The development follows \<^verbatim>\<open>src/liblangserver/codeactionvisitor.hpp\<close>. That header
  declares the class \<^verbatim>\<open>CodeActionVisitor\<close>, defines its constructor and the two static
  helpers \<^verbatim>\<open>createsLibrary\<close> and \<^verbatim>\<open>extractVariablename\<close> inline, and only declares
  the visit methods and the action-building helpers. The headers it includes
  (\<^verbatim>\<open>function.hpp\<close>, \<^verbatim>\<open>lsptypes.hpp\<close>, \<^verbatim>\<open>mesontree.hpp\<close>, \<^verbatim>\<open>node.hpp\<close>) are not
  among the sources, so the types they declare are modelled as far as the inline code
  reads them.
\<close>

subsection \<open>Types declared in the included headers\<close>

text \<open>
  Modelled from the spec: \<^verbatim>\<open>function.hpp\<close> is missing. The only member the code reads
  is \<^verbatim>\<open>id()\<close>, the resolved identifier of the function; it is the field \<open>id'\<close>
  (primed, since \<open>id\<close> is the identity function of HOL).
\<close>

record Function =
  id' :: string

text \<open>
  Pointers are addresses; a null pointer is \<open>None\<close>. The memory maps every address to
  the object stored there: the code only follows pointers of a live tree, so no
  dangling pointer is modelled.
\<close>

type_synonym addr = nat

text \<open>
  Modelled from the spec: \<^verbatim>\<open>node.hpp\<close> is missing. The dynamic class of a node is one
  of the twenty-two classes the visitor has a visit method for. A class carries the
  members the inline code reads: the two children \<^verbatim>\<open>lhs\<close> and \<^verbatim>\<open>rhs\<close> of an
  assignment (smart pointers, hence nullable) and the name \<^verbatim>\<open>id\<close> of an
  identifier expression. Members that no code of the header reads are left out.
\<close>

datatype NodeClass =
    ArgumentList
  | ArrayLiteral
  | AssignmentStatement "addr option" "addr option"
  | BinaryExpression
  | BooleanLiteral
  | BuildDefinition
  | ConditionalExpression
  | DictionaryLiteral
  | FunctionExpression
  | IdExpression string
  | IntegerLiteral
  | IterationStatement
  | KeyValueItem
  | KeywordItem
  | MethodExpression
  | SelectionStatement
  | StringLiteral
  | SubscriptExpression
  | UnaryExpression
  | ErrorNode
  | BreakNode
  | ContinueNode

text \<open>
  Every node has the non-owning back-reference \<^verbatim>\<open>parent\<close> of the base class
  \<^verbatim>\<open>Node\<close>, next to the members of its dynamic class.
\<close>

record Node =
  parent :: "addr option"
  cls :: NodeClass

type_synonym memory = "addr \<Rightarrow> Node"

text \<open>
  Modelled from the spec: \<^verbatim>\<open>lsptypes.hpp\<close> is missing. A range is a pair of
  line/column positions; a code action has a title and text edits, each scoped to a
  document uri and a target range.
\<close>

record LSPPosition =
  line :: nat
  character :: nat

record LSPRange =
  start :: LSPPosition
  end' :: LSPPosition

record TextEdit =
  edit_uri :: string
  edit_range :: LSPRange
  newText :: string

record CodeAction =
  title :: string
  edits :: "TextEdit list"

subsection \<open>The visitor and its constructor\<close>

text \<open>
  The data members of the class, lines 16 to 19. \<^verbatim>\<open>MesonTree\<close> is opaque to this
  header, so it is the type parameter \<open>'t\<close>; \<^verbatim>\<open>tree\<close> is a pointer to it. The member
  \<^verbatim>\<open>range\<close> is \<open>range'\<close> here (\<open>range\<close> is the image of a function in HOL).
\<close>

record 't CodeActionVisitor =
  actions :: "CodeAction list"
  range' :: LSPRange
  uri :: string
  tree :: "'t option"

text \<open>
  A C++ constructor rejects its arguments by throwing; a thrown exception would be
  \<open>Inl\<close>. The constructor of lines 21 to 23 has three member initialisers and an
  empty body: \<^verbatim>\<open>actions\<close> is default-constructed, the arguments are stored.
\<close>

datatype request_error = InvalidRequest

definition CodeActionVisitor_ctor ::
  "LSPRange \<Rightarrow> string \<Rightarrow> 't option \<Rightarrow> request_error + 't CodeActionVisitor" where
  "CodeActionVisitor_ctor r u t = Inr \<lparr>actions = [], range' = r, uri = u, tree = t\<rparr>"

text \<open>
  What the spec asks of an argument: the tree must be valid for the call, the uri must
  identify a document, the range is an interval. An argument triple is invalid when the
  tree pointer is null, the uri is empty, or the range ends before it starts.
\<close>

definition position_less :: "LSPPosition \<Rightarrow> LSPPosition \<Rightarrow> bool" where
  "position_less p q =
     (line p < line q \<or> (line p = line q \<and> character p < character q))"

definition invalid_request :: "LSPRange \<Rightarrow> string \<Rightarrow> 't option \<Rightarrow> bool" where
  "invalid_request r u t = (t = None \<or> u = [] \<or> position_less (end' r) (start r))"

subsection \<open>The inline helpers\<close>

text \<open>Lines 60 to 64.\<close>

definition createsLibrary :: "Function \<Rightarrow> bool" where
  "createsLibrary func =
     (let name = id' func
      in name = ''static_library'' \<or> name = ''shared_library'' \<or> name = ''library'')"

text \<open>
  The two \<^verbatim>\<open>dynamic_cast\<close>s of \<^verbatim>\<open>extractVariablename\<close>: each yields the members of the
  target class when the object has that class and null otherwise. A cast of a null
  pointer is null.
\<close>

fun cast_AssignmentStatement :: "Node \<Rightarrow> (addr option \<times> addr option) option" where
  "cast_AssignmentStatement n =
     (case cls n of AssignmentStatement l r \<Rightarrow> Some (l, r) | _ \<Rightarrow> None)"

fun cast_IdExpression :: "Node \<Rightarrow> string option" where
  "cast_IdExpression n = (case cls n of IdExpression name \<Rightarrow> Some name | _ \<Rightarrow> None)"

text \<open>
  Lines 66 to 81. \<open>fExpr\<close> is the address of the function expression; the result is
  the \<^verbatim>\<open>std::optional<std::string>\<close>, with \<open>None\<close> for \<^verbatim>\<open>std::nullopt\<close>.
\<close>

definition extractVariablename :: "memory \<Rightarrow> addr \<Rightarrow> string option" where
  "extractVariablename m fExpr =
     (case parent (m fExpr) of
        None \<Rightarrow> None
      | Some p \<Rightarrow>
          (case cast_AssignmentStatement (m p) of
             None \<Rightarrow> None
           | Some (l, r) \<Rightarrow>
               (case l of
                  None \<Rightarrow> None
                | Some i \<Rightarrow>
                    (case cast_IdExpression (m i) of
                       None \<Rightarrow> None
                     | Some name \<Rightarrow> Some name))))"

subsection \<open>Three object graphs\<close>

text \<open>
  The statement \<^verbatim>\<open>x = static_library(...)\<close> after parsing: the assignment at address 0
  owns the identifier at 1 and the call at 2, and both children point back to it.
\<close>

definition assigned_call_memory :: memory where
  "assigned_call_memory =
     (\<lambda>_. \<lparr>parent = None, cls = ErrorNode\<rparr>)
       (0 := \<lparr>parent = None, cls = AssignmentStatement (Some 1) (Some 2)\<rparr>,
        1 := \<lparr>parent = Some 0, cls = IdExpression ''x''\<rparr>,
        2 := \<lparr>parent = Some 0, cls = FunctionExpression\<rparr>)"

text \<open>
  The assignment \<^verbatim>\<open>x = 'a'\<close> at address 0, and a call at address 3 whose back-reference
  names that assignment although the assignment does not own it.
\<close>

definition stray_call_memory :: memory where
  "stray_call_memory =
     (\<lambda>_. \<lparr>parent = None, cls = ErrorNode\<rparr>)
       (0 := \<lparr>parent = None, cls = AssignmentStatement (Some 1) (Some 2)\<rparr>,
        1 := \<lparr>parent = Some 0, cls = IdExpression ''x''\<rparr>,
        2 := \<lparr>parent = Some 0, cls = StringLiteral\<rparr>,
        3 := \<lparr>parent = Some 0, cls = FunctionExpression\<rparr>)"

text \<open>
  The statement \<^verbatim>\<open>f() = y\<close> as a tree: the assignment at address 0 owns the call at 1
  as its left-hand side and the identifier at 2 as its right-hand side.
\<close>

definition lhs_call_memory :: memory where
  "lhs_call_memory =
     (\<lambda>_. \<lparr>parent = None, cls = ErrorNode\<rparr>)
       (0 := \<lparr>parent = None, cls = AssignmentStatement (Some 1) (Some 2)\<rparr>,
        1 := \<lparr>parent = Some 0, cls = FunctionExpression\<rparr>,
        2 := \<lparr>parent = Some 0, cls = IdExpression ''y''\<rparr>)"

section \<open>The declared methods, modelled from the spec\<close>

text \<open>
  The header declares the visit methods, \<^verbatim>\<open>inRange\<close> and the \<^verbatim>\<open>make...Action\<close> helpers
  without bodies; their definitions are in a translation unit that is not among the
  sources. What follows models, from sections 3, 4 and 8 of the spec, the parts that
  the spec fixes: the integer base conversion, the library genericization and the
  traversal driver. The range predicate is a parameter of the driver: the spec leaves
  its interval convention to the implementation.
\<close>

subsection \<open>The syntax tree\<close>

text \<open>
  Modelled from the spec: the node classes of \<^verbatim>\<open>node.hpp\<close> are missing. Section 3
  gives a node a kind (one of the enumerated variants), a source span and exclusively
  owned children in source order. A kind carries the data its recognizer reads: an
  integer literal its text and parsed value, an identifier its name, a function call
  the text and span of the called identifier and the function the semantic model
  resolved it to (none when unresolved).
\<close>

datatype NodeKind =
    ArgumentListKind
  | ArrayLiteralKind
  | AssignmentStatementKind
  | BinaryExpressionKind
  | BooleanLiteralKind
  | BuildDefinitionKind
  | ConditionalExpressionKind
  | DictionaryLiteralKind
  | FunctionExpressionKind string LSPRange "Function option"
  | IdExpressionKind string
  | IntegerLiteralKind string nat
  | IterationStatementKind
  | KeyValueItemKind
  | KeywordItemKind
  | MethodExpressionKind
  | SelectionStatementKind
  | StringLiteralKind
  | SubscriptExpressionKind
  | UnaryExpressionKind
  | ErrorNodeKind
  | BreakNodeKind
  | ContinueNodeKind

datatype SyntaxNode =
  SyntaxNode (kind: NodeKind) (span: LSPRange) (children: "SyntaxNode list")

text \<open>
  The actions a step added to the sequence of the visitor: what \<open>v'\<close> holds beyond
  the actions of \<open>v\<close>.
\<close>

definition emitted :: "'t CodeActionVisitor \<Rightarrow> 't CodeActionVisitor \<Rightarrow> CodeAction list" where
  "emitted v v' = drop (length (actions v)) (actions v')"

subsection \<open>Integer literals in the four bases\<close>

text \<open>
  Modelled from the spec: the body of \<^verbatim>\<open>makeIntegerToBaseAction\<close> is missing, and with
  it the rendering of a value in a base. Section 8 shows the forms for 42:
  \<^verbatim>\<open>0x2a\<close>, \<^verbatim>\<open>0o52\<close>, \<^verbatim>\<open>0b101010\<close>, so digits beyond 9 are lower-case letters.
  The parsed value is a natural number without an upper bound.
\<close>

definition digit_char :: "nat \<Rightarrow> char" where
  "digit_char d = (if d < 10 then char_of (48 + d) else char_of (87 + d))"

function to_base :: "nat \<Rightarrow> nat \<Rightarrow> string" where
  "to_base b n =
     (if b < 2 \<or> n < b then [digit_char n]
      else to_base b (n div b) @ [digit_char (n mod b)])"
  by pat_completeness auto
termination
  by (relation "measure (\<lambda>(b, n). n)") auto

declare to_base.simps [simp del]

text \<open>
  Modelled from the spec: the lexer that reads an integer literal is an external
  collaborator. A literal is a prefix \<^verbatim>\<open>0x\<close>, \<^verbatim>\<open>0o\<close> or \<^verbatim>\<open>0b\<close> followed by digits
  of that base, or decimal digits with no prefix; a text with no digit or with a
  character that is no digit of the base is no literal.
\<close>

definition digit_value :: "char \<Rightarrow> nat option" where
  "digit_value c =
     (let n = (of_char c :: nat)
      in if 48 \<le> n \<and> n \<le> 57 then Some (n - 48)
         else if 97 \<le> n \<and> n \<le> 102 then Some (n - 87)
         else if 65 \<le> n \<and> n \<le> 70 then Some (n - 55)
         else None)"

fun parse_digits :: "nat \<Rightarrow> string \<Rightarrow> nat \<Rightarrow> nat option" where
  "parse_digits b [] acc = Some acc"
| "parse_digits b (c # cs) acc =
     (case digit_value c of
        None \<Rightarrow> None
      | Some d \<Rightarrow> if d < b then parse_digits b cs (acc * b + d) else None)"

definition from_base :: "nat \<Rightarrow> string \<Rightarrow> nat option" where
  "from_base b s = (if s = [] then None else parse_digits b s 0)"

definition parseIntegerLiteral :: "string \<Rightarrow> nat option" where
  "parseIntegerLiteral s =
     (if take 2 s = ''0x'' then from_base 16 (drop 2 s)
      else if take 2 s = ''0o'' then from_base 8 (drop 2 s)
      else if take 2 s = ''0b'' then from_base 2 (drop 2 s)
      else from_base 10 s)"

text \<open>
  Modelled from the spec: the body of \<^verbatim>\<open>makeActionForBase\<close> is missing. Its declaration
  (lines 56 and 57) takes the literal, a title, a prefix and the digits; by section 4.4
  the action builder takes the edit range from the span of the node, attaches the uri
  of the request and appends the action to the sequence of the visitor.
\<close>

definition makeActionForBase ::
  "'t CodeActionVisitor \<Rightarrow> SyntaxNode \<Rightarrow> string \<Rightarrow> string \<Rightarrow> string \<Rightarrow> 't CodeActionVisitor" where
  "makeActionForBase v il ttl prefix val =
     v\<lparr>actions := actions v @
         [\<lparr>title = ttl,
           edits = [\<lparr>edit_uri = uri v, edit_range = span il, newText = prefix @ val\<rparr>]\<rparr>]\<rparr>"

text \<open>
  Modelled from the spec: the bases of section 4.2 (decimal, hexadecimal, octal,
  binary) with their prefixes, and the representation a literal is written in, read
  off its prefix.
\<close>

definition integer_bases :: "(string \<times> string \<times> nat) list" where
  "integer_bases =
     [(''decimal'', [], 10), (''hexadecimal'', ''0x'', 16), (''octal'', ''0o'', 8),
      (''binary'', ''0b'', 2)]"

definition literal_prefix :: "string \<Rightarrow> string" where
  "literal_prefix s =
     (if take 2 s = ''0x'' \<or> take 2 s = ''0o'' \<or> take 2 s = ''0b'' then take 2 s else [])"

text \<open>
  Modelled from the spec: the recognizer of \<^verbatim>\<open>makeIntegerToBaseAction\<close>, whose body is
  missing. For each base other than the one the literal is written in, it offers one
  conversion: a title that names the base, the prefix, and the parsed value rendered
  in that base. The wording of the titles is not fixed by the spec.
\<close>

definition baseConversions :: "string \<Rightarrow> nat \<Rightarrow> (string \<times> string \<times> string) list" where
  "baseConversions lit val =
     map (\<lambda>(name, prefix, b). (''Convert to '' @ name @ '' literal'', prefix, to_base b val))
       (filter (\<lambda>(name, prefix, b). prefix \<noteq> literal_prefix lit) integer_bases)"

text \<open>
  Modelled from the spec: the body of \<^verbatim>\<open>makeIntegerToBaseAction\<close> (declared on line 50)
  is missing. On an integer literal it builds one action per offered conversion; on
  any other node it does nothing.
\<close>

definition makeIntegerToBaseAction ::
  "'t CodeActionVisitor \<Rightarrow> SyntaxNode \<Rightarrow> 't CodeActionVisitor" where
  "makeIntegerToBaseAction v node =
     (case kind node of
        IntegerLiteralKind lit val \<Rightarrow>
          foldl (\<lambda>v' (ttl, prefix, s). makeActionForBase v' node ttl prefix s)
            v (baseConversions lit val)
      | _ \<Rightarrow> v)"

subsection \<open>Library genericization\<close>

text \<open>
  Modelled from the spec: the body of \<^verbatim>\<open>makeLibraryToGenericAction\<close> (declared on
  line 53) is missing. By section 4.2 it is triggered when the call target is
  \<^verbatim>\<open>static_library\<close> or \<^verbatim>\<open>shared_library\<close> and emits an action that rewrites the
  called identifier to \<^verbatim>\<open>library\<close> and leaves the arguments alone; the title is the
  one of the scenario in section 8. An unresolved call yields no action (section 7).
\<close>

definition makeLibraryToGenericAction ::
  "'t CodeActionVisitor \<Rightarrow> SyntaxNode \<Rightarrow> 't CodeActionVisitor" where
  "makeLibraryToGenericAction v node =
     (case kind node of
        FunctionExpressionKind name idSpan fn \<Rightarrow>
          (case fn of
             None \<Rightarrow> v
           | Some f \<Rightarrow>
               if id' f = ''static_library'' \<or> id' f = ''shared_library''
               then v\<lparr>actions := actions v @
                        [\<lparr>title = ''Convert to library()'',
                          edits = [\<lparr>edit_uri = uri v, edit_range = idSpan,
                                    newText = ''library''\<rparr>]\<rparr>]\<rparr>
               else v)
      | _ \<Rightarrow> v)"

text \<open>
  Modelled from the spec: applying an edit and parsing the document again are the work
  of the editor and the parser, both outside the header. An edit that targets the span
  of the called identifier replaces the identifier by the new text; the identifier
  then ends where the new text ends, and the semantic model, the parameter \<open>resolve\<close>,
  resolves the new identifier. The span of the call and its arguments are kept as
  they were: no recognizer modelled here reads them.
\<close>

definition applyEditToCall ::
  "(string \<Rightarrow> Function option) \<Rightarrow> TextEdit \<Rightarrow> SyntaxNode \<Rightarrow> SyntaxNode" where
  "applyEditToCall resolve e node =
     (case kind node of
        FunctionExpressionKind name idSpan fn \<Rightarrow>
          if edit_range e = idSpan
          then SyntaxNode
                 (FunctionExpressionKind (newText e)
                    \<lparr>start = start idSpan,
                     end' = \<lparr>line = line (start idSpan),
                              character = character (start idSpan) + length (newText e)\<rparr>\<rparr>
                    (resolve (newText e)))
                 (span node) (children node)
          else node
      | _ \<Rightarrow> node)"

subsection \<open>The traversal driver\<close>

text \<open>
  Modelled from the spec: the bodies of the visit methods are missing. By sections 2
  and 4.3 a single walk tests, at each node, the range predicate, invokes the
  recognizers keyed to the node, and then recurses into every child in source order,
  whether or not the node matched. \<open>inRange\<close> is the range predicate, given the range
  of the request and the node; \<open>recognize\<close> stands for the recognizers, given the
  visitor, the ancestors of the node (nearest first, in place of the back-reference)
  and the node.
\<close>

fun visit ::
  "(LSPRange \<Rightarrow> SyntaxNode \<Rightarrow> bool) \<Rightarrow>
   ('t CodeActionVisitor \<Rightarrow> SyntaxNode list \<Rightarrow> SyntaxNode \<Rightarrow> 't CodeActionVisitor) \<Rightarrow>
   SyntaxNode list \<Rightarrow> 't CodeActionVisitor \<Rightarrow> SyntaxNode \<Rightarrow> 't CodeActionVisitor" where
  "visit inRange recognize anc v (SyntaxNode k sp cs) =
     foldl (\<lambda>v' c. visit inRange recognize (SyntaxNode k sp cs # anc) v' c)
       (if inRange (range' v) (SyntaxNode k sp cs)
        then recognize v anc (SyntaxNode k sp cs) else v)
       cs"

text \<open>
  Modelled from the spec: the entry point \<^verbatim>\<open>collectCodeActions\<close> of section 6, which
  is not in the header. It constructs the visitor, walks the tree from the root and
  returns the accumulated sequence.
\<close>

definition collectCodeActions ::
  "(LSPRange \<Rightarrow> SyntaxNode \<Rightarrow> bool) \<Rightarrow>
   ('t CodeActionVisitor \<Rightarrow> SyntaxNode list \<Rightarrow> SyntaxNode \<Rightarrow> 't CodeActionVisitor) \<Rightarrow>
   LSPRange \<Rightarrow> string \<Rightarrow> 't option \<Rightarrow> SyntaxNode \<Rightarrow> request_error + CodeAction list" where
  "collectCodeActions inRange recognize r u t root =
     (case CodeActionVisitor_ctor r u t of
        Inl e \<Rightarrow> Inl e
      | Inr v \<Rightarrow> Inr (actions (visit inRange recognize [] v root)))"

text \<open>
  The order the spec names, written after its words and not after the driver: the
  nodes of a tree in pre-order, a node before its children and the children in source
  order, each with its ancestors; and the actions discovered at one node, none when the
  node is out of range.
\<close>

fun preorder :: "SyntaxNode list \<Rightarrow> SyntaxNode \<Rightarrow> (SyntaxNode list \<times> SyntaxNode) list" where
  "preorder anc (SyntaxNode k sp cs) =
     (anc, SyntaxNode k sp cs) #
       concat (map (\<lambda>c. preorder (SyntaxNode k sp cs # anc) c) cs)"

definition discovered ::
  "(LSPRange \<Rightarrow> SyntaxNode \<Rightarrow> bool) \<Rightarrow>
   (string \<Rightarrow> SyntaxNode list \<Rightarrow> SyntaxNode \<Rightarrow> CodeAction list) \<Rightarrow>
   LSPRange \<Rightarrow> string \<Rightarrow> SyntaxNode list \<times> SyntaxNode \<Rightarrow> CodeAction list" where
  "discovered inRange emit r u p = (if inRange r (snd p) then emit u (fst p) (snd p) else [])"

text \<open>
  The two recognizers modelled above, run one after the other at a node, and the
  actions they add at a node to an empty sequence.
\<close>

definition recognizeNode ::
  "'t CodeActionVisitor \<Rightarrow> SyntaxNode list \<Rightarrow> SyntaxNode \<Rightarrow> 't CodeActionVisitor" where
  "recognizeNode v anc node = makeLibraryToGenericAction (makeIntegerToBaseAction v node) node"

definition emittedAt :: "string \<Rightarrow> SyntaxNode list \<Rightarrow> SyntaxNode \<Rightarrow> CodeAction list" where
  "emittedAt u anc node =
     actions (recognizeNode
       \<lparr>actions = [], range' = span node, uri = u, tree = (None :: unit option)\<rparr> anc node)"

subsection \<open>A build file\<close>

text \<open>
  The document \<^verbatim>\<open>x = static_library('a')\<close> on line 0 and \<^verbatim>\<open>y = 42\<close> on line 1, a
  request over both lines, a semantic model that resolves every identifier to the
  function of that name, and a range predicate that compares lines only.
\<close>

definition statement_span :: "nat \<Rightarrow> nat \<Rightarrow> nat \<Rightarrow> LSPRange" where
  "statement_span l c c' =
     \<lparr>start = \<lparr>line = l, character = c\<rparr>, end' = \<lparr>line = l, character = c'\<rparr>\<rparr>"

definition literal42 :: SyntaxNode where
  "literal42 = SyntaxNode (IntegerLiteralKind ''42'' 42) (statement_span 1 4 6) []"

definition library_call :: SyntaxNode where
  "library_call =
     SyntaxNode
       (FunctionExpressionKind ''static_library'' (statement_span 0 4 18)
          (Some \<lparr>id' = ''static_library''\<rparr>))
       (statement_span 0 4 23)
       [SyntaxNode ArgumentListKind (statement_span 0 19 22)
          [SyntaxNode StringLiteralKind (statement_span 0 19 22) []]]"

definition build_file :: SyntaxNode where
  "build_file =
     SyntaxNode BuildDefinitionKind
       \<lparr>start = \<lparr>line = 0, character = 0\<rparr>, end' = \<lparr>line = 1, character = 6\<rparr>\<rparr>
       [SyntaxNode AssignmentStatementKind (statement_span 0 0 23)
          [SyntaxNode (IdExpressionKind ''x'') (statement_span 0 0 1) [], library_call],
        SyntaxNode AssignmentStatementKind (statement_span 1 0 6)
          [SyntaxNode (IdExpressionKind ''y'') (statement_span 1 0 1) [], literal42]]"

definition request_visitor :: "unit CodeActionVisitor" where
  "request_visitor =
     \<lparr>actions = [],
      range' = \<lparr>start = \<lparr>line = 0, character = 0\<rparr>, end' = \<lparr>line = 1, character = 6\<rparr>\<rparr>,
      uri = ''file:///meson.build'', tree = None\<rparr>"

definition builtin_resolver :: "string \<Rightarrow> Function option" where
  "builtin_resolver name = Some \<lparr>id' = name\<rparr>"

definition lines_meet :: "LSPRange \<Rightarrow> SyntaxNode \<Rightarrow> bool" where
  "lines_meet r node =
     (line (start (span node)) \<le> line (end' r) \<and> line (start r) \<le> line (end' (span node)))"

section \<open>Properties of the inline code\<close>

subsection \<open>createsLibrary\<close>

text \<open>
  Claim C1. \<open>createsLibrary\<close> is true exactly when the resolved identifier of the
  function is one of \<^verbatim>\<open>static_library\<close>, \<^verbatim>\<open>shared_library\<close> and \<^verbatim>\<open>library\<close>; it is
  false for every other identifier, \<^verbatim>\<open>shared_module\<close> among them.
\<close>

theorem createsLibrary_iff:
  "(createsLibrary func \<longleftrightarrow>
      id' func = ''static_library'' \<or> id' func = ''shared_library'' \<or> id' func = ''library'')
   \<and> \<not> createsLibrary (func\<lparr>id' := ''shared_module''\<rparr>)"
  by (simp add: createsLibrary_def Let_def)

subsection \<open>extractVariablename\<close>

lemma cast_AssignmentStatement_Some:
  "cast_AssignmentStatement n = Some (l, r) \<longleftrightarrow> cls n = AssignmentStatement l r"
  by (cases "cls n") auto

lemma cast_IdExpression_Some:
  "cast_IdExpression n = Some name \<longleftrightarrow> cls n = IdExpression name"
  by (cases "cls n") auto

lemma extractVariablename_Some:
  "extractVariablename m fExpr = Some name \<longleftrightarrow>
     (\<exists>p l r. parent (m fExpr) = Some p \<and> cls (m p) = AssignmentStatement (Some l) r \<and>
        cls (m l) = IdExpression name)"
  unfolding extractVariablename_def
  by (auto simp del: cast_AssignmentStatement.simps cast_IdExpression.simps
      simp: cast_AssignmentStatement_Some [symmetric] cast_IdExpression_Some [symmetric]
      split: option.splits)

text \<open>
  Claim C2. For every node \<open>fExpr\<close> (a function expression in particular),
  \<open>extractVariablename\<close> returns the name \<open>name\<close> exactly when the back-reference of
  \<open>fExpr\<close> is set, the object it names is an assignment statement, and the left-hand
  side of that assignment is an identifier expression called \<open>name\<close>. In every other
  case the result is the empty optional. The result type has no error value: the
  function has no other outcome.
\<close>

theorem extractVariablename_iff:
  "(extractVariablename m fExpr = Some name \<longleftrightarrow>
     (\<exists>p l r. parent (m fExpr) = Some p \<and> cls (m p) = AssignmentStatement (Some l) r \<and>
        cls (m l) = IdExpression name)) \<and>
   (extractVariablename m fExpr = None \<longleftrightarrow>
     \<not> (\<exists>p l r n. parent (m fExpr) = Some p \<and> cls (m p) = AssignmentStatement (Some l) r \<and>
        cls (m l) = IdExpression n))"
proof -
  have "extractVariablename m fExpr = None \<longleftrightarrow> \<not> (\<exists>n. extractVariablename m fExpr = Some n)"
    by auto
  then show ?thesis
    unfolding extractVariablename_Some by blast
qed

text \<open>
  In \<open>assigned_call_memory\<close> the call at address 2 yields \<^verbatim>\<open>x\<close>; the assignment at
  address 0 has no parent and yields nothing.
\<close>

theorem extractVariablename_iff_witness:
  "cls (assigned_call_memory 2) = FunctionExpression \<and>
   extractVariablename assigned_call_memory 2 = Some ''x'' \<and>
   extractVariablename assigned_call_memory 0 = None"
  using extractVariablename_iff [of assigned_call_memory 2 "''x''"]
    extractVariablename_iff [of assigned_call_memory 0 "''x''"]
  by (simp add: assigned_call_memory_def)

text \<open>
  In a tree the back-reference of a node names the node that owns it, so a function
  expression whose parent is an assignment is its left or its right child. There a
  result can only come from the right-hand side: a function expression on the left is
  not an identifier.
\<close>

lemma extractVariablename_owned_is_rhs:
  assumes "cls (m fExpr) = FunctionExpression"
    and "parent (m fExpr) = Some p"
    and "cls (m p) = AssignmentStatement l r"
    and "l = Some fExpr \<or> r = Some fExpr"
    and "extractVariablename m fExpr = Some name"
  shows "r = Some fExpr"
proof (rule ccontr)
  assume "r \<noteq> Some fExpr"
  with assms(4) have "l = Some fExpr" by simp
  with assms(1,2,3) have "extractVariablename m fExpr = None"
    by (simp add: extractVariablename_def)
  with assms(5) show False by simp
qed

text \<open>
  Claim C10, as stated, asks for a tree in which a function expression is attached to
  an assignment in a position other than the right-hand side and still gets the
  left-hand identifier. The only other position is the left-hand side: in the tree of
  \<^verbatim>\<open>f() = y\<close> the call at address 1 gets the empty optional. No object graph in which
  the parent assignment owns the function expression, and not as its right-hand side,
  yields a name.
\<close>

theorem extractVariablename_lhs_call_is_none:
  "cls (lhs_call_memory 1) = FunctionExpression \<and>
   parent (lhs_call_memory 1) = Some 0 \<and>
   cls (lhs_call_memory 0) = AssignmentStatement (Some 1) (Some 2) \<and>
   extractVariablename lhs_call_memory 1 = None \<and>
   \<not> (\<exists>m f p l r name. cls (m f) = FunctionExpression \<and> parent (m f) = Some p \<and>
         cls (m p) = AssignmentStatement l r \<and> (l = Some f \<or> r = Some f) \<and>
         r \<noteq> Some f \<and> extractVariablename m f = Some name)"
proof -
  have "cls (lhs_call_memory 1) = FunctionExpression \<and>
      parent (lhs_call_memory 1) = Some 0 \<and>
      cls (lhs_call_memory 0) = AssignmentStatement (Some 1) (Some 2) \<and>
      extractVariablename lhs_call_memory 1 = None"
    by (simp add: lhs_call_memory_def extractVariablename_def)
  moreover have "\<not> (\<exists>m f p l r name. cls (m f) = FunctionExpression \<and>
      parent (m f) = Some p \<and> cls (m p) = AssignmentStatement l r \<and>
      (l = Some f \<or> r = Some f) \<and> r \<noteq> Some f \<and>
      extractVariablename m f = Some name)"
    using extractVariablename_owned_is_rhs by blast
  ultimately show ?thesis by blast
qed

text \<open>
  Claim C10, amended. \<open>extractVariablename\<close> reads the back-reference and the left-hand
  side only: whenever the parent is an assignment to a bare identifier it returns that
  identifier, whatever the right-hand side \<open>r\<close> of the assignment is. In a tree, where
  the parent assignment owns the function expression as its left or right child, a
  function expression that is not the right-hand side gets the empty optional. The
  missing check shows only outside trees: there is an object graph in which a function
  expression names as its parent an assignment that owns it neither as left nor as
  right child, and the function returns the left-hand identifier of that assignment.
\<close>

theorem extractVariablename_reads_parent_and_lhs:
  "(parent (m fExpr) = Some p \<and> cls (m p) = AssignmentStatement (Some l) r \<and>
      cls (m l) = IdExpression name
    \<longrightarrow> extractVariablename m fExpr = Some name) \<and>
   (cls (m fExpr) = FunctionExpression \<and> parent (m fExpr) = Some p \<and>
      cls (m p) = AssignmentStatement lo r \<and> (lo = Some fExpr \<or> r = Some fExpr) \<and>
      r \<noteq> Some fExpr
    \<longrightarrow> extractVariablename m fExpr = None) \<and>
   (\<exists>m' f' p' l' r' name'. cls (m' f') = FunctionExpression \<and> parent (m' f') = Some p' \<and>
      cls (m' p') = AssignmentStatement (Some l') r' \<and> r' \<noteq> Some f' \<and> l' \<noteq> f' \<and>
      extractVariablename m' f' = Some name')"
proof (intro conjI)
  show "parent (m fExpr) = Some p \<and> cls (m p) = AssignmentStatement (Some l) r \<and>
      cls (m l) = IdExpression name \<longrightarrow> extractVariablename m fExpr = Some name"
    unfolding extractVariablename_Some by blast
next
  show "cls (m fExpr) = FunctionExpression \<and> parent (m fExpr) = Some p \<and>
      cls (m p) = AssignmentStatement lo r \<and> (lo = Some fExpr \<or> r = Some fExpr) \<and>
      r \<noteq> Some fExpr
    \<longrightarrow> extractVariablename m fExpr = None"
  proof
    assume a: "cls (m fExpr) = FunctionExpression \<and> parent (m fExpr) = Some p \<and>
      cls (m p) = AssignmentStatement lo r \<and> (lo = Some fExpr \<or> r = Some fExpr) \<and>
      r \<noteq> Some fExpr"
    show "extractVariablename m fExpr = None"
    proof (cases "extractVariablename m fExpr")
      case None
      then show ?thesis .
    next
      case (Some n)
      with a have "r = Some fExpr"
        using extractVariablename_owned_is_rhs [of m fExpr p lo r n] by blast
      with a show ?thesis by simp
    qed
  qed
next
  have "cls (stray_call_memory 3) = FunctionExpression \<and>
    parent (stray_call_memory 3) = Some 0 \<and>
    cls (stray_call_memory 0) = AssignmentStatement (Some 1) (Some 2) \<and>
    Some 2 \<noteq> Some (3::nat) \<and> (1::nat) \<noteq> 3 \<and>
    extractVariablename stray_call_memory 3 = Some ''x''"
    by (simp add: stray_call_memory_def extractVariablename_def)
  then show "\<exists>m' f' p' l' r' name'. cls (m' f') = FunctionExpression \<and>
      parent (m' f') = Some p' \<and> cls (m' p') = AssignmentStatement (Some l') r' \<and>
      r' \<noteq> Some f' \<and> l' \<noteq> f' \<and> extractVariablename m' f' = Some name'"
    by blast
qed

text \<open>
  The theorem at two trees: in \<^verbatim>\<open>x = static_library(...)\<close> the call at address 2 is
  the right-hand side and gets \<^verbatim>\<open>x\<close>; in \<^verbatim>\<open>f() = y\<close> the call at address 1 is the
  left-hand side and gets nothing.
\<close>

theorem extractVariablename_reads_parent_and_lhs_witness:
  "parent (assigned_call_memory 2) = Some 0 \<and>
   cls (assigned_call_memory 0) = AssignmentStatement (Some 1) (Some 2) \<and>
   cls (assigned_call_memory 1) = IdExpression ''x'' \<and>
   extractVariablename assigned_call_memory 2 = Some ''x'' \<and>
   cls (lhs_call_memory 1) = FunctionExpression \<and>
   parent (lhs_call_memory 1) = Some 0 \<and>
   cls (lhs_call_memory 0) = AssignmentStatement (Some 1) (Some 2) \<and>
   extractVariablename lhs_call_memory 1 = None"
proof -
  have pre1: "parent (assigned_call_memory 2) = Some 0 \<and>
      cls (assigned_call_memory 0) = AssignmentStatement (Some 1) (Some 2) \<and>
      cls (assigned_call_memory 1) = IdExpression ''x''"
    by (simp add: assigned_call_memory_def)
  have r1: "extractVariablename assigned_call_memory 2 = Some ''x''"
    using extractVariablename_reads_parent_and_lhs
      [where m = assigned_call_memory and fExpr = 2 and p = 0 and l = 1 and r = "Some 2"
         and name = "''x''"] pre1
    by blast
  have pre2: "cls (lhs_call_memory 1) = FunctionExpression \<and>
      parent (lhs_call_memory 1) = Some 0 \<and>
      cls (lhs_call_memory 0) = AssignmentStatement (Some 1) (Some 2)"
    by (simp add: lhs_call_memory_def)
  have own: "(Some 1 = Some (1::nat) \<or> Some 2 = Some (1::nat)) \<and> Some 2 \<noteq> Some (1::nat)"
    by simp
  have r2: "extractVariablename lhs_call_memory 1 = None"
    using extractVariablename_reads_parent_and_lhs
      [where m = lhs_call_memory and fExpr = 1 and p = 0 and lo = "Some 1" and r = "Some 2"]
      pre2 own
    by blast
  show ?thesis using pre1 r1 pre2 r2 by simp
qed

subsection \<open>The constructor\<close>

text \<open>
  Claim C7, as stated, asks that a request with an invalid range, uri or tree is
  rejected with the invalid-request signal. The constructor, given a range that ends
  before it starts, an empty uri and a null tree, returns a visitor with an empty
  action sequence.
\<close>

theorem ctor_accepts_invalid_request:
  "invalid_request \<lparr>start = \<lparr>line = 1, character = 0\<rparr>, end' = \<lparr>line = 0, character = 0\<rparr>\<rparr>
      [] (None :: unit option) \<and>
   CodeActionVisitor_ctor \<lparr>start = \<lparr>line = 1, character = 0\<rparr>, end' = \<lparr>line = 0, character = 0\<rparr>\<rparr>
      [] (None :: unit option) =
     Inr \<lparr>actions = [], range' = \<lparr>start = \<lparr>line = 1, character = 0\<rparr>, end' = \<lparr>line = 0, character = 0\<rparr>\<rparr>,
          uri = [], tree = None\<rparr>"
  by (simp add: invalid_request_def CodeActionVisitor_ctor_def)

text \<open>
  Claim C7, amended. The constructor checks nothing: for every range, uri and tree
  pointer, a null pointer included, it never signals an invalid request and returns a
  visitor that holds the three arguments unchanged and an empty action sequence.
\<close>

theorem ctor_never_rejects:
  "CodeActionVisitor_ctor r u t \<noteq> Inl InvalidRequest \<and>
   (\<exists>v. CodeActionVisitor_ctor r u t = Inr v \<and> actions v = [] \<and> range' v = r \<and>
      uri v = u \<and> tree v = t)"
  by (simp add: CodeActionVisitor_ctor_def)

section \<open>Properties of the modelled methods\<close>

subsection \<open>Rendering and reading back\<close>

lemma digit_value_digit_char: "d < 16 \<Longrightarrow> digit_value (digit_char d) = Some d"
  by (auto simp: digit_value_def digit_char_def Let_def)

lemma parse_digits_append:
  "parse_digits b (xs @ ys) acc =
     (case parse_digits b xs acc of None \<Rightarrow> None | Some a \<Rightarrow> parse_digits b ys a)"
  by (induction xs arbitrary: acc) (auto split: option.splits)

lemma parse_digits_to_base:
  "2 \<le> b \<Longrightarrow> b \<le> 16 \<Longrightarrow> parse_digits b (to_base b n) 0 = Some n"
proof (induction b n rule: to_base.induct)
  case (1 b n)
  show ?case
  proof (cases "n < b")
    case True
    with 1 show ?thesis
      by (subst to_base.simps) (simp add: digit_value_digit_char)
  next
    case False
    with 1 have ih: "parse_digits b (to_base b (n div b)) 0 = Some (n div b)"
      by simp
    have md: "n mod b < b" "n mod b < 16" using 1(2,3) 
      by (auto intro: less_le_trans [OF mod_less_divisor])
    show ?thesis using False 1(2)
      by (subst to_base.simps) (simp add: parse_digits_append ih digit_value_digit_char md)
  qed
qed

lemma to_base_nonempty: "to_base b n \<noteq> []"
  by (subst to_base.simps) simp

lemma to_base_digits:
  "2 \<le> b \<Longrightarrow> c \<in> set (to_base b n) \<Longrightarrow> \<exists>d<b. c = digit_char d"
proof (induction b n rule: to_base.induct)
  case (1 b n)
  show ?case
  proof (cases "n < b")
    case True
    with 1(3) have "c = digit_char n"
      by (subst (asm) to_base.simps) simp
    with True show ?thesis by blast
  next
    case False
    with 1(2,3) have "c \<in> set (to_base b (n div b)) \<or> c = digit_char (n mod b)"
      by (subst (asm) to_base.simps) auto
    then show ?thesis
    proof
      assume "c \<in> set (to_base b (n div b))"
      with 1(1) False 1(2) show ?thesis by simp
    next
      assume "c = digit_char (n mod b)"
      moreover have "n mod b < b" using 1(2) by simp
      ultimately show ?thesis by blast
    qed
  qed
qed

lemma from_base_to_base: "2 \<le> b \<Longrightarrow> b \<le> 16 \<Longrightarrow> from_base b (to_base b n) = Some n"
  by (simp add: from_base_def to_base_nonempty parse_digits_to_base)

lemma decimal_digit_not_letter:
  assumes "d < 10"
  shows "digit_char d \<noteq> CHR ''x''" "digit_char d \<noteq> CHR ''o''" "digit_char d \<noteq> CHR ''b''"
proof -
  have v: "digit_value (digit_char d) = Some d"
    using assms by (simp add: digit_value_digit_char)
  have "digit_value CHR ''x'' = None" "digit_value CHR ''o'' = None"
    "digit_value CHR ''b'' = Some 11"
    by (simp_all add: digit_value_def)
  with v assms show "digit_char d \<noteq> CHR ''x''" "digit_char d \<noteq> CHR ''o''"
    "digit_char d \<noteq> CHR ''b''"
    by auto
qed

lemma decimal_no_prefix:
  assumes "take 2 (to_base 10 n) = [a, c]"
  shows "c \<noteq> CHR ''x'' \<and> c \<noteq> CHR ''o'' \<and> c \<noteq> CHR ''b''"
proof -
  have "c \<in> set (take 2 (to_base 10 n))" using assms by simp
  then have "c \<in> set (to_base 10 n)" by (rule in_set_takeD)
  then obtain d where "d < 10" "c = digit_char d"
    using to_base_digits [of 10 c n] by auto
  then show ?thesis using decimal_digit_not_letter by simp
qed

lemma parseIntegerLiteral_decimal: "parseIntegerLiteral (to_base 10 n) = Some n"
proof -
  have "take 2 (to_base 10 n) \<noteq> ''0x''" "take 2 (to_base 10 n) \<noteq> ''0o''"
    "take 2 (to_base 10 n) \<noteq> ''0b''"
    using decimal_no_prefix [of n] by auto
  then show ?thesis
    by (simp add: parseIntegerLiteral_def from_base_to_base)
qed

lemma parseIntegerLiteral_prefixed:
  "parseIntegerLiteral (CHR ''0'' # CHR ''x'' # to_base 16 n) = Some n"
  "parseIntegerLiteral (CHR ''0'' # CHR ''o'' # to_base 8 n) = Some n"
  "parseIntegerLiteral (CHR ''0'' # CHR ''b'' # to_base 2 n) = Some n"
  by (simp_all add: parseIntegerLiteral_def from_base_to_base)

lemma parseIntegerLiteral_integer_bases:
  "(name, prefix, b) \<in> set integer_bases \<Longrightarrow>
     parseIntegerLiteral (prefix @ to_base b n) = Some n"
  by (auto simp: integer_bases_def parseIntegerLiteral_decimal parseIntegerLiteral_prefixed)

lemma literal_prefix_cases:
  "literal_prefix s = [] \<or> literal_prefix s = ''0x'' \<or> literal_prefix s = ''0o'' \<or>
   literal_prefix s = ''0b''"
  by (auto simp: literal_prefix_def)

lemma length_baseConversions: "length (baseConversions lit val) = 3"
proof -
  consider "literal_prefix lit = []" | "literal_prefix lit = ''0x''"
    | "literal_prefix lit = ''0o''" | "literal_prefix lit = ''0b''"
    using literal_prefix_cases by blast
  then show ?thesis
    by cases (simp_all add: baseConversions_def integer_bases_def)
qed

lemma baseConversions_round_trip:
  "(ttl, prefix, s) \<in> set (baseConversions lit val) \<Longrightarrow>
     parseIntegerLiteral (prefix @ s) = Some val"
  by (auto simp: baseConversions_def dest: parseIntegerLiteral_integer_bases)

lemma foldl_makeActionForBase:
  "foldl (\<lambda>v' (ttl, prefix, s). makeActionForBase v' node ttl prefix s) v cs =
     v\<lparr>actions := actions v @
        map (\<lambda>(ttl, prefix, s).
               \<lparr>title = ttl,
                edits = [\<lparr>edit_uri = uri v, edit_range = span node, newText = prefix @ s\<rparr>]\<rparr>)
          cs\<rparr>"
  by (induction cs arbitrary: v) (auto simp: makeActionForBase_def)

lemma makeIntegerToBaseAction_literal:
  "kind node = IntegerLiteralKind lit val \<Longrightarrow>
   makeIntegerToBaseAction v node =
     v\<lparr>actions := actions v @
        map (\<lambda>(ttl, prefix, s).
               \<lparr>title = ttl,
                edits = [\<lparr>edit_uri = uri v, edit_range = span node, newText = prefix @ s\<rparr>]\<rparr>)
          (baseConversions lit val)\<rparr>"
  by (simp add: makeIntegerToBaseAction_def foldl_makeActionForBase)

text \<open>
  Claim C3. For an integer literal with parsed value \<open>V\<close>, \<open>makeIntegerToBaseAction\<close>
  appends three actions to the sequence, one for each base the literal is not written
  in. Each carries an edit, and each edit of each of them replaces the span of the
  literal, in the document of the request, by a text that reads back as an integer
  literal of value \<open>V\<close>.
\<close>

theorem integer_base_round_trip:
  assumes "kind node = IntegerLiteralKind lit V"
  shows "actions (makeIntegerToBaseAction v node) =
           actions v @ emitted v (makeIntegerToBaseAction v node) \<and>
         length (emitted v (makeIntegerToBaseAction v node)) = 3 \<and>
         (\<forall>a \<in> set (emitted v (makeIntegerToBaseAction v node)).
            edits a \<noteq> [] \<and>
            (\<forall>e \<in> set (edits a).
               parseIntegerLiteral (newText e) = Some V \<and> edit_uri e = uri v \<and>
               edit_range e = span node))"
proof -
  let ?new = "map (\<lambda>(ttl, prefix, s).
               \<lparr>title = ttl,
                edits = [\<lparr>edit_uri = uri v, edit_range = span node, newText = prefix @ s\<rparr>]\<rparr>)
          (baseConversions lit V)"
  have eq: "actions (makeIntegerToBaseAction v node) = actions v @ ?new"
    by (simp add: makeIntegerToBaseAction_literal [OF assms])
  then have em: "emitted v (makeIntegerToBaseAction v node) = ?new"
    by (simp add: emitted_def)
  have "length ?new = 3" by (simp add: length_baseConversions)
  moreover have "\<forall>a \<in> set ?new. edits a \<noteq> [] \<and>
            (\<forall>e \<in> set (edits a).
               parseIntegerLiteral (newText e) = Some V \<and> edit_uri e = uri v \<and>
               edit_range e = span node)"
    by (auto dest: baseConversions_round_trip)
  ultimately show ?thesis
    unfolding em using eq by simp
qed

text \<open>
  The literal \<^verbatim>\<open>42\<close> of section 8: the three texts are \<^verbatim>\<open>0x2a\<close>, \<^verbatim>\<open>0o52\<close> and
  \<^verbatim>\<open>0b101010\<close>, and each reads back as 42.
\<close>

theorem integer_base_round_trip_witness:
  "kind literal42 = IntegerLiteralKind ''42'' 42 \<and>
   map (\<lambda>a. map newText (edits a))
     (emitted request_visitor (makeIntegerToBaseAction request_visitor literal42)) =
     [[''0x2a''], [''0o52''], [''0b101010'']] \<and>
   list_all (\<lambda>a. list_all (\<lambda>e. parseIntegerLiteral (newText e) = Some 42) (edits a))
     (emitted request_visitor (makeIntegerToBaseAction request_visitor literal42))"
proof -
  have k: "kind literal42 = IntegerLiteralKind ''42'' 42"
    by (simp add: literal42_def)
  have ev: "map (\<lambda>a. map newText (edits a))
     (emitted request_visitor (makeIntegerToBaseAction request_visitor literal42)) =
     [[''0x2a''], [''0o52''], [''0b101010'']]"
    by code_simp
  have "\<forall>a \<in> set (emitted request_visitor (makeIntegerToBaseAction request_visitor literal42)).
      \<forall>e \<in> set (edits a). parseIntegerLiteral (newText e) = Some 42"
    using integer_base_round_trip [OF k, of request_visitor] by blast
  then have "list_all (\<lambda>a. list_all (\<lambda>e. parseIntegerLiteral (newText e) = Some 42) (edits a))
     (emitted request_visitor (makeIntegerToBaseAction request_visitor literal42))"
    by (simp add: list_all_iff)
  with k ev show ?thesis by simp
qed

subsection \<open>Library genericization\<close>

text \<open>
  Claim C4. For a call that resolves to \<^verbatim>\<open>static_library\<close> or \<^verbatim>\<open>shared_library\<close>,
  \<open>makeLibraryToGenericAction\<close> appends exactly one action; its single edit replaces
  the called identifier by \<^verbatim>\<open>library\<close>. On the call as it is after that edit, the
  recognizer appends nothing, for any visitor, provided the semantic model resolves
  the identifier \<^verbatim>\<open>library\<close> to a function of that name or to none.
\<close>

theorem library_to_generic_once_then_none:
  assumes "kind call = FunctionExpressionKind name idSpan (Some f)"
    and "id' f = ''static_library'' \<or> id' f = ''shared_library''"
    and "\<forall>g. resolve ''library'' = Some g \<longrightarrow> id' g = ''library''"
  shows "\<exists>a e. actions (makeLibraryToGenericAction v call) = actions v @ [a] \<and>
           emitted v (makeLibraryToGenericAction v call) = [a] \<and>
           edits a = [e] \<and> edit_uri e = uri v \<and> edit_range e = idSpan \<and>
           newText e = ''library'' \<and>
           emitted v' (makeLibraryToGenericAction v' (applyEditToCall resolve e call)) = []"
proof -
  let ?e = "\<lparr>edit_uri = uri v, edit_range = idSpan, newText = ''library''\<rparr>"
  let ?a = "\<lparr>title = ''Convert to library()'', edits = [?e]\<rparr>"
  have one: "actions (makeLibraryToGenericAction v call) = actions v @ [?a]"
    using assms(1,2) by (auto simp: makeLibraryToGenericAction_def)
  then have em: "emitted v (makeLibraryToGenericAction v call) = [?a]"
    by (simp add: emitted_def)
  have again: "makeLibraryToGenericAction v' (applyEditToCall resolve ?e call) = v'"
    using assms(1,3)
    by (auto simp: makeLibraryToGenericAction_def applyEditToCall_def split: option.splits)
  have "emitted v' (makeLibraryToGenericAction v' (applyEditToCall resolve ?e call)) = []"
    by (simp add: again emitted_def)
  with one em show ?thesis by auto
qed

text \<open>
  The call \<^verbatim>\<open>static_library('a')\<close> of the build file: one action with the title of
  section 8, and none after the edit.
\<close>

theorem library_to_generic_once_then_none_witness:
  "kind library_call =
     FunctionExpressionKind ''static_library'' (statement_span 0 4 18)
       (Some \<lparr>id' = ''static_library''\<rparr>) \<and>
   emitted request_visitor (makeLibraryToGenericAction request_visitor library_call) =
     [\<lparr>title = ''Convert to library()'',
       edits = [\<lparr>edit_uri = ''file:///meson.build'', edit_range = statement_span 0 4 18,
                 newText = ''library''\<rparr>]\<rparr>] \<and>
   emitted request_visitor
     (makeLibraryToGenericAction request_visitor
        (applyEditToCall builtin_resolver
           \<lparr>edit_uri = ''file:///meson.build'', edit_range = statement_span 0 4 18,
             newText = ''library''\<rparr> library_call)) = []"
proof -
  have k: "kind library_call =
     FunctionExpressionKind ''static_library'' (statement_span 0 4 18)
       (Some \<lparr>id' = ''static_library''\<rparr>)"
    by (simp add: library_call_def)
  have f: "id' \<lparr>id' = ''static_library''\<rparr> = ''static_library'' \<or>
      id' \<lparr>id' = ''static_library''\<rparr> = ''shared_library''"
    by simp
  have r: "\<forall>g. builtin_resolver ''library'' = Some g \<longrightarrow> id' g = ''library''"
    by (auto simp: builtin_resolver_def)
  obtain a e where
    em: "emitted request_visitor (makeLibraryToGenericAction request_visitor library_call) = [a]"
    and ed: "edits a = [e]" "edit_uri e = uri request_visitor"
      "edit_range e = statement_span 0 4 18" "newText e = ''library''"
    and again: "emitted request_visitor
      (makeLibraryToGenericAction request_visitor
         (applyEditToCall builtin_resolver e library_call)) = []"
    using library_to_generic_once_then_none [of library_call "''static_library''"
        "statement_span 0 4 18" "\<lparr>id' = ''static_library''\<rparr>" builtin_resolver
        request_visitor request_visitor] k f r
    by blast
  have ev: "emitted request_visitor (makeLibraryToGenericAction request_visitor library_call) =
     [\<lparr>title = ''Convert to library()'',
       edits = [\<lparr>edit_uri = ''file:///meson.build'', edit_range = statement_span 0 4 18,
                 newText = ''library''\<rparr>]\<rparr>]"
    by (simp add: emitted_def makeLibraryToGenericAction_def library_call_def
        request_visitor_def)
  from em ev ed(1) have "e = \<lparr>edit_uri = ''file:///meson.build'',
      edit_range = statement_span 0 4 18, newText = ''library''\<rparr>"
    by auto
  with again k ev show ?thesis by simp
qed

subsection \<open>Order of discovery\<close>

lemma foldl_visit:
  assumes "\<And>c a w. c \<in> set cs \<Longrightarrow> f w c = w\<lparr>actions := actions w @ concat (map (g (range' w) (uri w)) (h c))\<rparr>"
  shows "foldl f v cs = v\<lparr>actions := actions v @ concat (map (g (range' v) (uri v)) (concat (map h cs)))\<rparr>"
  using assms
proof (induction cs arbitrary: v)
  case Nil
  show ?case by simp
next
  case (Cons c cs)
  have "foldl f (f v c) cs = (f v c)\<lparr>actions := actions (f v c) @
      concat (map (g (range' (f v c)) (uri (f v c))) (concat (map h cs)))\<rparr>"
    by (rule Cons.IH) (simp add: Cons.prems)
  then show ?case
    by (simp add: Cons.prems)
qed

lemma visit_actions:
  assumes ap: "\<And>w a n. recognize w a n = w\<lparr>actions := actions w @ emit (uri w) a n\<rparr>"
  shows "visit inRange recognize anc v node =
     v\<lparr>actions := actions v @
         concat (map (discovered inRange emit (range' v) (uri v)) (preorder anc node))\<rparr>"
proof (induction node arbitrary: anc v)
  case (SyntaxNode k sp cs)
  let ?n = "SyntaxNode k sp cs"
  let ?v1 = "if inRange (range' v) ?n then recognize v anc ?n else v"
  have v1: "?v1 = v\<lparr>actions := actions v @ discovered inRange emit (range' v) (uri v) (anc, ?n)\<rparr>"
    by (simp add: ap discovered_def)
  have "foldl (\<lambda>v' c. visit inRange recognize (?n # anc) v' c) ?v1 cs =
      ?v1\<lparr>actions := actions ?v1 @
        concat (map (discovered inRange emit (range' ?v1) (uri ?v1))
          (concat (map (\<lambda>c. preorder (?n # anc) c) cs)))\<rparr>"
    by (rule foldl_visit) (simp add: SyntaxNode.IH)
  then show ?case
    unfolding visit.simps preorder.simps by (simp add: v1)
qed

lemma concat_map_nth_split:
  assumes "i < j" and "j < length xs"
  shows "\<exists>pre mid post. concat (map f xs) = pre @ f (xs ! i) @ mid @ f (xs ! j) @ post"
proof -
  from assms have i: "i < length xs" by simp
  have a: "xs = take i xs @ xs ! i # drop (Suc i) xs"
    using i by (rule id_take_nth_drop)
  let ?ys = "drop (Suc i) xs"
  have jl: "j - Suc i < length ?ys" using assms by simp
  have b: "?ys = take (j - Suc i) ?ys @ ?ys ! (j - Suc i) # drop (Suc (j - Suc i)) ?ys"
    using jl by (rule id_take_nth_drop)
  have c: "?ys ! (j - Suc i) = xs ! j" using assms by simp
  have "concat (map f xs) = concat (map f (take i xs)) @ f (xs ! i) @ concat (map f ?ys)"
    by (subst a) simp
  also have "concat (map f ?ys) =
      concat (map f (take (j - Suc i) ?ys)) @ f (xs ! j) @
      concat (map f (drop (Suc (j - Suc i)) ?ys))"
    by (subst b) (simp add: c)
  finally show ?thesis by blast
qed

lemma recognizeNode_uniform:
  assumes "uri w0 = uri w" and "actions w0 = []"
  shows "recognizeNode w a n = w\<lparr>actions := actions w @ actions (recognizeNode w0 a n)\<rparr>"
  using assms
  by (cases "kind n")
    (simp_all add: recognizeNode_def makeIntegerToBaseAction_def foldl_makeActionForBase
      makeLibraryToGenericAction_def split: option.splits)

lemma recognizeNode_appends:
  "recognizeNode w a n = w\<lparr>actions := actions w @ emittedAt (uri w) a n\<rparr>"
  unfolding emittedAt_def by (rule recognizeNode_uniform) simp_all

text \<open>
  Claim C9. Where every recognizer only appends to the sequence of the visitor, and
  what it appends depends on the uri, the ancestors and the node, the sequence a
  request returns is the concatenation, over the nodes of the tree in pre-order, of the
  actions discovered at each node. In particular, for two nodes at positions \<open>i < j\<close>
  of the pre-order, the actions discovered at the first stand before those discovered
  at the second.
\<close>

theorem collectCodeActions_preorder:
  assumes "\<forall>w a n. recognize w a n = w\<lparr>actions := actions w @ emit (uri w) a n\<rparr>"
  shows "collectCodeActions inRange recognize r u t root =
           Inr (concat (map (discovered inRange emit r u) (preorder [] root))) \<and>
         (\<forall>i j. i < j \<and> j < length (preorder [] root) \<longrightarrow>
            (\<exists>pre mid post. collectCodeActions inRange recognize r u t root =
               Inr (pre @ discovered inRange emit r u (preorder [] root ! i) @ mid @
                    discovered inRange emit r u (preorder [] root ! j) @ post)))"
proof -
  have ap: "\<And>w a n. recognize w a n = w\<lparr>actions := actions w @ emit (uri w) a n\<rparr>"
    using assms by blast
  let ?v = "\<lparr>actions = [], range' = r, uri = u, tree = t\<rparr>"
  have "visit inRange recognize [] ?v root =
      ?v\<lparr>actions := actions ?v @
         concat (map (discovered inRange emit (range' ?v) (uri ?v)) (preorder [] root))\<rparr>"
    by (rule visit_actions [OF ap])
  then have eq: "collectCodeActions inRange recognize r u t root =
           Inr (concat (map (discovered inRange emit r u) (preorder [] root)))"
    by (simp add: collectCodeActions_def CodeActionVisitor_ctor_def)
  show ?thesis
    unfolding eq using concat_map_nth_split by blast
qed

text \<open>
  The build file with the two modelled recognizers: the action for the call on line 0
  comes first, the three for the literal on line 1 follow.
\<close>

theorem collectCodeActions_preorder_witness:
  "map (\<lambda>p. kind (snd p)) (preorder [] build_file) =
     [BuildDefinitionKind, AssignmentStatementKind, IdExpressionKind ''x'',
      FunctionExpressionKind ''static_library'' (statement_span 0 4 18)
        (Some \<lparr>id' = ''static_library''\<rparr>),
      ArgumentListKind, StringLiteralKind, AssignmentStatementKind, IdExpressionKind ''y'',
      IntegerLiteralKind ''42'' 42] \<and>
   map title (projr (collectCodeActions lines_meet recognizeNode
      (range' request_visitor) (uri request_visitor) (tree request_visitor) build_file)) =
     [''Convert to library()'', ''Convert to hexadecimal literal'',
      ''Convert to octal literal'', ''Convert to binary literal''] \<and>
   collectCodeActions lines_meet recognizeNode
      (range' request_visitor) (uri request_visitor) (tree request_visitor) build_file =
     Inr (concat (map (discovered lines_meet emittedAt (range' request_visitor)
        (uri request_visitor)) (preorder [] build_file)))"
proof -
  have ap: "\<forall>w a n. recognizeNode w a n =
      (w :: unit CodeActionVisitor)\<lparr>actions := actions w @ emittedAt (uri w) a n\<rparr>"
    by (simp add: recognizeNode_appends)
  have eq: "collectCodeActions lines_meet recognizeNode
      (range' request_visitor) (uri request_visitor) (tree request_visitor) build_file =
     Inr (concat (map (discovered lines_meet emittedAt (range' request_visitor)
        (uri request_visitor)) (preorder [] build_file)))"
    using collectCodeActions_preorder [OF ap] by blast
  have ev: "map title (concat (map (discovered lines_meet emittedAt (range' request_visitor)
        (uri request_visitor)) (preorder [] build_file))) =
     [''Convert to library()'', ''Convert to hexadecimal literal'',
      ''Convert to octal literal'', ''Convert to binary literal'']"
    by code_simp
  have po: "map (\<lambda>p. kind (snd p)) (preorder [] build_file) =
     [BuildDefinitionKind, AssignmentStatementKind, IdExpressionKind ''x'',
      FunctionExpressionKind ''static_library'' (statement_span 0 4 18)
        (Some \<lparr>id' = ''static_library''\<rparr>),
      ArgumentListKind, StringLiteralKind, AssignmentStatementKind, IdExpressionKind ''y'',
      IntegerLiteralKind ''42'' 42]"
    by (simp add: build_file_def library_call_def literal42_def)
  show ?thesis
    using eq ev po by simp
qed

end
